theory Spec2Isabelle
  imports Complex_Main
begin

section \<open>Python values and errors\<close>

text \<open>
  The exceptions the pipeline can see.  \<open>KeyboardInterrupt\<close> and \<open>SystemExit\<close> derive
  from \<open>BaseException\<close> only, so a handler \<^verbatim>\<open>except Exception\<close> does not catch them.
\<close>

datatype exn =
    ValueError string
  | IndexError
  | RuntimeError
  | OSError
  | KeyboardInterrupt
  | SystemExit

fun is_Exception :: "exn \<Rightarrow> bool" where
  "is_Exception KeyboardInterrupt = False"
| "is_Exception SystemExit = False"
| "is_Exception (ValueError m) = True"
| "is_Exception IndexError = True"
| "is_Exception RuntimeError = True"
| "is_Exception OSError = True"

text \<open>
  \<^verbatim>\<open>str.lower()\<close> on the ASCII range: the letters A..Z (codes 65..90) move to a..z, every
  other character stays.  Strings are byte lists here; the only characters the pipeline
  compares against are ASCII, and no character outside ASCII lowers to one of them.
\<close>

definition lower_char :: "char \<Rightarrow> char" where
  "lower_char c =
     (let n = (of_char c :: nat) in if 65 \<le> n \<and> n \<le> 90 then char_of (n + 32) else c)"

definition lower :: "string \<Rightarrow> string" where
  "lower s = map lower_char s"

text \<open>\<^verbatim>\<open>int(x)\<close> truncates towards zero; \<^verbatim>\<open>round(x)\<close> rounds halves to the even neighbour.\<close>

definition py_int :: "real \<Rightarrow> int" where
  "py_int x = (if 0 \<le> x then \<lfloor>x\<rfloor> else \<lceil>x\<rceil>)"

definition py_round :: "real \<Rightarrow> int" where
  "py_round x =
     (let f = \<lfloor>x\<rfloor>; d = x - of_int f
      in if d < 1 / 2 then f else if 1 / 2 < d then f + 1 else if even f then f else f + 1)"

text \<open>A slice \<^verbatim>\<open>xs[:k]\<close>: a negative stop counts from the end, a stop past the end is clipped.\<close>

definition py_take :: "int \<Rightarrow> 'a list \<Rightarrow> 'a list" where
  "py_take k xs = (if k < 0 then take (nat (int (length xs) + k)) xs else take (nat k) xs)"

section \<open>\<^verbatim>\<open>os.path.splitext\<close>\<close>

text \<open>
  \<^verbatim>\<open>str.rfind\<close>: the index of the last occurrence, \<open>-1\<close> when there is none.
\<close>

fun rfind_from :: "char \<Rightarrow> string \<Rightarrow> int \<Rightarrow> int \<Rightarrow> int" where
  "rfind_from c [] i found = found"
| "rfind_from c (x # xs) i found = rfind_from c xs (i + 1) (if x = c then i else found)"

definition rfind :: "string \<Rightarrow> char \<Rightarrow> int" where
  "rfind p c = rfind_from c p 0 (- 1)"

text \<open>
  The loop of \<^verbatim>\<open>genericpath._splitext\<close> that skips the leading dots of the last path
  component: it answers whether some character in \<open>p[filenameIndex:dotIndex]\<close> is not
  the extension separator.
\<close>

function splitext_loop :: "string \<Rightarrow> char \<Rightarrow> nat \<Rightarrow> nat \<Rightarrow> bool" where
  "splitext_loop p extsep filenameIndex dotIndex =
     (if filenameIndex < dotIndex then
        (if take 1 (drop filenameIndex p) \<noteq> [extsep] then True
         else splitext_loop p extsep (filenameIndex + 1) dotIndex)
      else False)"
  by pat_completeness auto
termination
  by (relation "measure (\<lambda>(p, e, fi, di). di - fi)") auto

declare splitext_loop.simps [simp del]

definition splitext_generic :: "string \<Rightarrow> char \<Rightarrow> char option \<Rightarrow> char \<Rightarrow> string \<times> string" where
  "splitext_generic p sep altsep extsep =
     (let sepIndex0 = rfind p sep;
          sepIndex = (case altsep of None \<Rightarrow> sepIndex0 | Some a \<Rightarrow> max sepIndex0 (rfind p a));
          dotIndex = rfind p extsep
      in if sepIndex < dotIndex \<and> splitext_loop p extsep (nat (sepIndex + 1)) (nat dotIndex)
         then (take (nat dotIndex) p, drop (nat dotIndex) p)
         else (p, []))"

text \<open>
  \<^verbatim>\<open>os.path\<close> is \<^verbatim>\<open>posixpath\<close> or \<^verbatim>\<open>ntpath\<close>, by platform: the separators differ.
\<close>

datatype os_flavour = Posix | Nt

fun os_sep :: "os_flavour \<Rightarrow> char" where
  "os_sep Posix = CHR ''/''"
| "os_sep Nt = CHR 0x5C"

fun os_altsep :: "os_flavour \<Rightarrow> char option" where
  "os_altsep Posix = None"
| "os_altsep Nt = Some (CHR ''/'')"

definition splitext :: "os_flavour \<Rightarrow> string \<Rightarrow> string \<times> string" where
  "splitext os p = splitext_generic p (os_sep os) (os_altsep os) (CHR ''.'')"

section \<open>Recordings, the decomposition object, files and the world\<close>

datatype ch_kind = EEG | EOG | ECG | EMG | STIM | MISC

record info =
  ch_names :: "string list"
  ch_kinds :: "ch_kind list"
  bads :: "string list"
  sfreq :: real
  meas_date :: "string option"

text \<open>A continuous recording (\<^verbatim>\<open>mne.io.BaseRaw\<close>): channels by samples.\<close>

record raw_t =
  raw_info :: info
  raw_data :: "real list list"

text \<open>A windowed recording (\<^verbatim>\<open>mne.epochs.BaseEpochs\<close>): windows by channels by samples.\<close>

record epochs_t =
  ep_info :: info
  ep_n_times :: nat
  ep_data :: "real list list list"

text \<open>
  Continuous recordings are mutable objects that the pipeline shares between its
  variables, so they live in a store and variables hold references.  The windowed
  recording has a single owner and is held by value.  The variable \<^verbatim>\<open>cleaned\<close> holds one
  or the other; the \<^verbatim>\<open>isinstance\<close> tests of the export read the tag.
\<close>

datatype series = Continuous nat | Epoched epochs_t

text \<open>The decomposition object \<^verbatim>\<open>mne.preprocessing.ICA\<close>; \<open>'m\<close> is the fitted state.\<close>

record 'm ica_t =
  n_components :: int
  random_state :: "nat option"
  max_iter :: string
  fitted :: "'m option"
  exclude :: "nat list"

record scatter =
  sc_x :: "real list"
  sc_y :: "real list"
  sc_mode :: string
  sc_name :: string

record figure =
  fig_traces :: "scatter list"
  fig_title :: string
  fig_xaxis_title :: string
  fig_yaxis_title :: string
  fig_height :: nat
  fig_width :: nat

datatype file_t =
    Blob string
  | FifRaw raw_t
  | FifEpochs epochs_t
  | Csv "real list list"
  | Html figure

datatype event =
    ReadRawEdf string
  | ReadRawFif string
  | Filter real real
  | IcaFit int
  | FindBadsEog
  | IcaApply "nat list"
  | MakeEvents real
  | Save string
  | Savetxt string
  | WriteHtml string

text \<open>
  The world a run starts in and leaves behind: the object store with its next free
  reference, the file system, the log of the library calls made so far, and the state
  of the process-wide random generator.
\<close>

record world =
  store :: "nat \<Rightarrow> raw_t"
  next_ref :: nat
  fs :: "string \<Rightarrow> file_t option"
  calls :: "event list"
  rng :: nat

text \<open>
  The numerical routines of the libraries are parameters of the model: the readers,
  the FIR filter, the ICA fit (given the seed in use), the EOG scoring, the
  reconstruction, the event grid of \<^verbatim>\<open>make_fixed_length_events\<close>, and whether a write to
  a path fails.  \<open>os_name\<close> is the platform.
\<close>

record 'm mne =
  os_name :: os_flavour
  read_raw_edf :: "string \<Rightarrow> (string \<Rightarrow> file_t option) \<Rightarrow> exn + raw_t"
  read_raw_fif :: "string \<Rightarrow> (string \<Rightarrow> file_t option) \<Rightarrow> exn + raw_t"
  fir_filter :: "real \<Rightarrow> real \<Rightarrow> raw_t \<Rightarrow> exn + real list list"
  ica_fit :: "'m ica_t \<Rightarrow> nat \<Rightarrow> raw_t \<Rightarrow> exn + 'm"
  find_bads_eog :: "'m ica_t \<Rightarrow> raw_t \<Rightarrow> exn + nat list \<times> real list"
  ica_apply :: "'m ica_t \<Rightarrow> raw_t \<Rightarrow> exn + real list list"
  make_fixed_length_events :: "raw_t \<Rightarrow> real \<Rightarrow> exn + nat list"
  write_error :: "string \<Rightarrow> (string \<Rightarrow> file_t option) \<Rightarrow> exn option"

section \<open>Running statements in sequence\<close>

text \<open>A statement returns a value or raises, and leaves a world; an exception ends the run.\<close>

definition seq ::
  "(exn + 'a) \<times> world \<Rightarrow> ('a \<Rightarrow> world \<Rightarrow> (exn + 'b) \<times> world) \<Rightarrow> (exn + 'b) \<times> world" where
  "seq m f = (case m of (Inl e, w) \<Rightarrow> (Inl e, w) | (Inr x, w) \<Rightarrow> f x w)"

definition log_call :: "event \<Rightarrow> world \<Rightarrow> world" where
  "log_call e w = w\<lparr>calls := calls w @ [e]\<rparr>"

definition new_object :: "raw_t \<Rightarrow> world \<Rightarrow> nat \<times> world" where
  "new_object x w =
     (next_ref w, w\<lparr>store := (store w)(next_ref w := x), next_ref := Suc (next_ref w)\<rparr>)"

definition write_file ::
  "'m mne \<Rightarrow> event \<Rightarrow> string \<Rightarrow> file_t \<Rightarrow> world \<Rightarrow> (exn + unit) \<times> world" where
  "write_file L ev path f w =
     (case write_error L path (fs w) of
        Some e \<Rightarrow> (Inl e, log_call ev w)
      | None \<Rightarrow> (Inr (), (log_call ev w)\<lparr>fs := (fs w)(path \<mapsto> f)\<rparr>))"

section \<open>The pipeline: \<^verbatim>\<open>preprocess_eeg\<close>\<close>

subsection \<open>Lines 12 to 18: the extension test and the readers\<close>

definition read_raw ::
  "(string \<Rightarrow> (string \<Rightarrow> file_t option) \<Rightarrow> exn + raw_t) \<Rightarrow> event \<Rightarrow> string \<Rightarrow> world
     \<Rightarrow> (exn + nat) \<times> world" where
  "read_raw reader ev path w =
     (case reader path (fs w) of
        Inl e \<Rightarrow> (Inl e, log_call ev w)
      | Inr x \<Rightarrow> (case new_object x (log_call ev w) of (r, w') \<Rightarrow> (Inr r, w')))"

definition load_raw :: "'m mne \<Rightarrow> string \<Rightarrow> world \<Rightarrow> (exn + nat) \<times> world" where
  "load_raw L input_path w =
     (let ext = lower (snd (splitext (os_name L) input_path))
      in if ext = ''.edf'' then read_raw (read_raw_edf L) (ReadRawEdf input_path) input_path w
         else if ext = ''.fif'' then read_raw (read_raw_fif L) (ReadRawFif input_path) input_path w
         else (Inl (ValueError ''Unsupported file format''), w))"

subsection \<open>Line 21: \<^verbatim>\<open>raw.filter(l_freq, h_freq, fir_design='firwin')\<close>\<close>

text \<open>
  The method filters the object it is called on and returns that same object; the
  pipeline drops the return value, so the filtered signal reaches the later stages
  through the object \<^verbatim>\<open>raw\<close> refers to.
\<close>

definition raw_filter :: "'m mne \<Rightarrow> nat \<Rightarrow> real \<Rightarrow> real \<Rightarrow> world \<Rightarrow> (exn + unit) \<times> world" where
  "raw_filter L r l_freq h_freq w =
     (case fir_filter L l_freq h_freq (store w r) of
        Inl e \<Rightarrow> (Inl e, log_call (Filter l_freq h_freq) w)
      | Inr d \<Rightarrow>
          (Inr (), (log_call (Filter l_freq h_freq) w)
                     \<lparr>store := (store w)(r := (store w r)\<lparr>raw_data := d\<rparr>)\<rparr>))"

subsection \<open>Lines 24 to 27: the decomposition\<close>

definition ICA :: "int \<Rightarrow> nat option \<Rightarrow> string \<Rightarrow> 'm ica_t" where
  "ICA n rs mi =
     \<lparr>n_components = n, random_state = rs, max_iter = mi, fitted = None, exclude = []\<rparr>"

text \<open>
  \<^verbatim>\<open>ica.fit(raw)\<close>: with \<open>random_state = None\<close> the fit draws from the process-wide
  generator, with a number it seeds a generator of its own.
\<close>

definition ica_fit_raw :: "'m mne \<Rightarrow> 'm ica_t \<Rightarrow> nat \<Rightarrow> world \<Rightarrow> (exn + 'm ica_t) \<times> world" where
  "ica_fit_raw L ica r w =
     (let seed = (case random_state ica of Some s \<Rightarrow> s | None \<Rightarrow> rng w);
          w0 = (case random_state ica of Some s \<Rightarrow> w | None \<Rightarrow> w\<lparr>rng := Suc (rng w)\<rparr>);
          w1 = log_call (IcaFit (n_components ica)) w0
      in case ica_fit L ica seed (store w r) of
           Inl e \<Rightarrow> (Inl e, w1)
         | Inr m \<Rightarrow> (Inr (ica\<lparr>fitted := Some m\<rparr>), w1))"

definition fit_ica :: "'m mne \<Rightarrow> int \<Rightarrow> nat \<Rightarrow> world \<Rightarrow> (exn + 'm ica_t) \<times> world" where
  "fit_ica L n_comp raw w =
     (let n_chan = int (length (ch_names (raw_info (store w raw))));
          n_ica = min n_comp n_chan
      in ica_fit_raw L (ICA n_ica (Some 97) ''auto'') raw w)"

subsection \<open>Lines 29 to 37: automatic detection of the EOG components\<close>

text \<open>
  \<^verbatim>\<open>mne.pick_types(info, eog=True)\<close>: the indices of the channels of kind EOG, without
  those listed in \<open>info['bads']\<close> (the default \<open>exclude='bads'\<close>).
\<close>

definition pick_types_eog :: "info \<Rightarrow> nat list" where
  "pick_types_eog nfo =
     filter (\<lambda>i. i < length (ch_kinds nfo) \<and> ch_kinds nfo ! i = EOG
                 \<and> ch_names nfo ! i \<notin> set (bads nfo))
            [0 ..< length (ch_names nfo)]"

definition find_eog_artifacts ::
  "'m mne \<Rightarrow> 'm ica_t \<Rightarrow> nat \<Rightarrow> world \<Rightarrow> (exn + 'm ica_t) \<times> world" where
  "find_eog_artifacts L ica raw w =
     (let eog_chs = pick_types_eog (raw_info (store w raw))
      in if 0 < length eog_chs then
           (case find_bads_eog L ica (store w raw) of
              Inr (eog_inds, scores) \<Rightarrow> (Inr (ica\<lparr>exclude := eog_inds\<rparr>), log_call FindBadsEog w)
            | Inl e \<Rightarrow>
                if is_Exception e then (Inr (ica\<lparr>exclude := []\<rparr>), log_call FindBadsEog w)
                else (Inl e, log_call FindBadsEog w))
         else (Inr (ica\<lparr>exclude := []\<rparr>), w))"

subsection \<open>Line 38: \<^verbatim>\<open>cleaned = ica.apply(raw.copy())\<close>\<close>

text \<open>
  \<^verbatim>\<open>raw.copy()\<close> makes a new object; \<^verbatim>\<open>ica.apply\<close> rewrites the data of the object it is
  given and returns it.
\<close>

definition apply_to_copy :: "'m mne \<Rightarrow> 'm ica_t \<Rightarrow> nat \<Rightarrow> world \<Rightarrow> (exn + nat) \<times> world" where
  "apply_to_copy L ica raw w =
     (case new_object (store w raw) w of
        (c, w1) \<Rightarrow>
          (case ica_apply L ica (store w1 c) of
             Inl e \<Rightarrow> (Inl e, log_call (IcaApply (exclude ica)) w1)
           | Inr d \<Rightarrow>
               (Inr c, (log_call (IcaApply (exclude ica)) w1)
                         \<lparr>store := (store w1)(c := (store w1 c)\<lparr>raw_data := d\<rparr>)\<rparr>)))"

subsection \<open>Lines 41 to 44: optional epoching\<close>

definition n_samples :: "raw_t \<Rightarrow> nat" where
  "n_samples x = (case raw_data x of [] \<Rightarrow> 0 | row # rest \<Rightarrow> length row)"

text \<open>
  \<^verbatim>\<open>mne.Epochs(raw, events, tmin, tmax, baseline=None, preload=True)\<close>, as far as the export
  depends on it.  Two events on the same sample raise \<open>RuntimeError\<close> (the default
  \<open>event_repeated='error'\<close>), no event at all raises \<open>ValueError\<close>, and so does
  \<open>tmin > tmax\<close>.  The window of an event runs from sample \<open>round(tmin * sfreq)\<close> to
  sample \<open>round(tmax * sfreq)\<close> after the event, both included (the library's
  documentation: the samples closest to the start and to the end time are included), over
  all channels; a window that does not lie inside the recording is dropped.
\<close>

definition Epochs :: "raw_t \<Rightarrow> nat list \<Rightarrow> real \<Rightarrow> real \<Rightarrow> exn + epochs_t" where
  "Epochs raw events tmin tmax =
     (if \<not> distinct events then Inl RuntimeError
      else if events = [] then Inl (ValueError ''No desired events found.'')
      else if tmax < tmin then Inl (ValueError ''tmin has to be less than or equal to tmax'')
      else
        (let sf = sfreq (raw_info raw);
             start_idx = py_round (tmin * sf);
             stop_idx = py_round (tmax * sf);
             n_times = nat (stop_idx + 1 - start_idx);
             kept = filter (\<lambda>ev. 0 \<le> int ev + start_idx
                                 \<and> int ev + start_idx + int n_times \<le> int (n_samples raw)) events
         in Inr \<lparr>ep_info = raw_info raw, ep_n_times = n_times,
                 ep_data = map (\<lambda>ev. map (\<lambda>row. take n_times (drop (nat (int ev + start_idx)) row))
                                          (raw_data raw)) kept\<rparr>))"

definition make_epochs :: "'m mne \<Rightarrow> nat \<Rightarrow> real \<Rightarrow> world \<Rightarrow> (exn + series) \<times> world" where
  "make_epochs L cleaned epoch_length w =
     (case make_fixed_length_events L (store w cleaned) epoch_length of
        Inl e \<Rightarrow> (Inl e, log_call (MakeEvents epoch_length) w)
      | Inr events \<Rightarrow>
          (case Epochs (store w cleaned) events 0 epoch_length of
             Inl e \<Rightarrow> (Inl e, log_call (MakeEvents epoch_length) w)
           | Inr epochs \<Rightarrow> (Inr (Epoched epochs), log_call (MakeEvents epoch_length) w)))"

subsection \<open>Lines 47 to 58: export\<close>

definition set_meas_date :: "info \<Rightarrow> string option \<Rightarrow> info" where
  "set_meas_date nfo d = nfo\<lparr>meas_date := d\<rparr>"

text \<open>
  \<^verbatim>\<open>epochs.get_data().mean(axis=0)\<close>: a channels by samples matrix, each entry the mean
  of that sample of that channel over the windows.  (With no window left numpy's
  entries are NaN; the quotient by zero of the reals is 0.)
\<close>

definition mean_axis0 :: "epochs_t \<Rightarrow> real list list" where
  "mean_axis0 ep =
     map (\<lambda>c. map (\<lambda>t. (\<Sum>win \<leftarrow> ep_data ep. win ! c ! t) / real (length (ep_data ep)))
                  [0 ..< ep_n_times ep])
         [0 ..< length (ch_names (ep_info ep))]"

definition save_cleaned ::
  "'m mne \<Rightarrow> series \<Rightarrow> string \<Rightarrow> string \<Rightarrow> world \<Rightarrow> (exn + series) \<times> world" where
  "save_cleaned L cleaned fif_out_path csv_out_path w =
     (case cleaned of
        Continuous c \<Rightarrow>
          (let w1 = w\<lparr>store := (store w)
                       (c := (store w c)\<lparr>raw_info := set_meas_date (raw_info (store w c)) None\<rparr>)\<rparr>
           in seq (write_file L (Save fif_out_path) fif_out_path (FifRaw (store w1 c)) w1)
                (\<lambda>u w2. let data = raw_data (store w2 c)
                   in seq (write_file L (Savetxt csv_out_path) csv_out_path (Csv data) w2)
                        (\<lambda>u w3. (Inr (Continuous c), w3))))
      | Epoched ep \<Rightarrow>
          (let ep1 = ep\<lparr>ep_info := set_meas_date (ep_info ep) None\<rparr>
           in seq (write_file L (Save fif_out_path) fif_out_path (FifEpochs ep1) w)
                (\<lambda>u w2. let data = mean_axis0 ep1
                   in seq (write_file L (Savetxt csv_out_path) csv_out_path (Csv data) w2)
                        (\<lambda>u w3. (Inr (Epoched ep1), w3)))))"

subsection \<open>The whole function\<close>

definition preprocess_eeg ::
  "'m mne \<Rightarrow> string \<Rightarrow> string \<Rightarrow> string \<Rightarrow> real \<Rightarrow> real \<Rightarrow> int \<Rightarrow> bool \<Rightarrow> real \<Rightarrow> world
     \<Rightarrow> (exn + nat \<times> series \<times> 'm ica_t \<times> nat list) \<times> world" where
  "preprocess_eeg L input_path fif_out_path csv_out_path l_freq h_freq n_comp epoch epoch_length w =
     seq (load_raw L input_path w) (\<lambda>raw w1.
     seq (raw_filter L raw l_freq h_freq w1) (\<lambda>u w2.
     seq (fit_ica L n_comp raw w2) (\<lambda>ica0 w3.
     seq (find_eog_artifacts L ica0 raw w3) (\<lambda>ica w4.
     seq (apply_to_copy L ica raw w4) (\<lambda>c w5.
     seq (if epoch then make_epochs L c epoch_length w5 else (Inr (Continuous c), w5))
       (\<lambda>cleaned w6.
     seq (save_cleaned L cleaned fif_out_path csv_out_path w6) (\<lambda>cleaned' w7.
       (Inr (raw, cleaned', ica, exclude ica), w7))))))))"

section \<open>The renderer of the raw signal: \<^verbatim>\<open>plot_raw_signal\<close>\<close>

text \<open>
  \<^verbatim>\<open>raw[:n_channels, :n]\<close> gives the first rows, cut to the first samples, and the
  times of those samples.
\<close>

definition raw_times :: "raw_t \<Rightarrow> real list" where
  "raw_times x = map (\<lambda>k. real k / sfreq (raw_info x)) [0 ..< n_samples x]"

definition raw_getitem :: "raw_t \<Rightarrow> int \<Rightarrow> int \<Rightarrow> real list list \<times> real list" where
  "raw_getitem x n_rows n_cols =
     (map (py_take n_cols) (py_take n_rows (raw_data x)), py_take n_cols (raw_times x))"

definition add_trace :: "figure \<Rightarrow> scatter \<Rightarrow> figure" where
  "add_trace fig s = fig\<lparr>fig_traces := fig_traces fig @ [s]\<rparr>"

definition empty_figure :: figure where
  "empty_figure =
     \<lparr>fig_traces = [], fig_title = [], fig_xaxis_title = [], fig_yaxis_title = [],
      fig_height = 0, fig_width = 0\<rparr>"

text \<open>The body of the loop \<^verbatim>\<open>for i in range(n_channels)\<close>, over the indices still to do.\<close>

fun plot_traces ::
  "raw_t \<Rightarrow> real list list \<Rightarrow> real list \<Rightarrow> nat list \<Rightarrow> figure \<Rightarrow> exn + figure" where
  "plot_traces raw dat tms [] fig = Inr fig"
| "plot_traces raw dat tms (i # rest) fig =
     (if length dat \<le> i then Inl IndexError
      else if length (ch_names (raw_info raw)) \<le> i then Inl IndexError
      else plot_traces raw dat tms rest
             (add_trace fig
                \<lparr>sc_x = tms, sc_y = map (\<lambda>v. v + real i * 100) (dat ! i),
                 sc_mode = ''lines'', sc_name = ch_names (raw_info raw) ! i\<rparr>))"

definition plot_raw_signal ::
  "'m mne \<Rightarrow> raw_t \<Rightarrow> string \<Rightarrow> real \<Rightarrow> int \<Rightarrow> world \<Rightarrow> (exn + unit) \<times> world" where
  "plot_raw_signal L raw out_html_path duration n_channels w =
     (case raw_getitem raw n_channels (py_int (duration * sfreq (raw_info raw))) of
        (dat, tms) \<Rightarrow>
          (case plot_traces raw dat tms [0 ..< nat n_channels] empty_figure of
             Inl e \<Rightarrow> (Inl e, w)
           | Inr fig \<Rightarrow>
               write_file L (WriteHtml out_html_path) out_html_path
                 (Html (fig\<lparr>fig_title := ''Raw EEG Signal (first 5 channels, 10s)'',
                            fig_xaxis_title := ''Time (s)'',
                            fig_yaxis_title := ''Amplitude + offset'',
                            fig_height := 400, fig_width := 900\<rparr>)) w))"

section \<open>Notions used in the statements\<close>

text \<open>A character that \<^verbatim>\<open>str.lower()\<close> neither changes nor produces: not an ASCII letter.\<close>

definition caseless :: "char \<Rightarrow> bool" where
  "caseless c = (let n = (of_char c :: nat) in (n < 65 \<or> 90 < n) \<and> (n < 97 \<or> 122 < n))"

text \<open>
  The entry point rejects a path: it raises the unsupported-format error and leaves the
  world as it found it (a reader that was called is in the log, so the world differs).
\<close>

definition rejected :: "'m mne \<Rightarrow> string \<Rightarrow> world \<Rightarrow> bool" where
  "rejected L input_path w =
     (load_raw L input_path w = (Inl (ValueError ''Unsupported file format''), w))"

text \<open>The library calls a run made: the log it left, without the log it started with.\<close>

definition new_calls :: "world \<Rightarrow> world \<Rightarrow> event list" where
  "new_calls w w' = drop (length (calls w)) (calls w')"

text \<open>
  What the caller can observe of a run: the exception, or the returned tuple with the
  references read in the final store.
\<close>

definition outcome ::
  "(exn + nat \<times> series \<times> 'm ica_t \<times> nat list) \<times> world
     \<Rightarrow> exn + raw_t \<times> (raw_t + epochs_t) \<times> 'm ica_t \<times> nat list" where
  "outcome r =
     (case r of
        (Inl e, w) \<Rightarrow> Inl e
      | (Inr (raw, cleaned, ica, ex), w) \<Rightarrow>
          Inr (store w raw,
               (case cleaned of Continuous c \<Rightarrow> Inl (store w c) | Epoched ep \<Rightarrow> Inr ep),
               ica, ex))"

subsection \<open>A small library instance for the examples\<close>

text \<open>
  Two recordings of two channels at 2 Hz, six samples each; the second channel of the
  first one is an EOG channel.  The example library reads a recording straight out of the
  file, doubles every sample when it filters, keeps the seed as the fitted state, fails
  in the EOG scoring, reconstructs the data unchanged, puts an event every two samples
  and writes anywhere.
\<close>

definition eog_rec :: raw_t where
  "eog_rec =
     \<lparr>raw_info = \<lparr>ch_names = [''Fz'', ''EOG1''], ch_kinds = [EEG, EOG], bads = [], sfreq = 2,
                   meas_date = Some ''2020-01-01''\<rparr>,
      raw_data = [[1, 2, 3, 4, 5, 6], [0, 1, 0, 1, 0, 1]]\<rparr>"

definition eeg_rec :: raw_t where
  "eeg_rec =
     \<lparr>raw_info = \<lparr>ch_names = [''Fz'', ''Cz''], ch_kinds = [EEG, EEG], bads = [], sfreq = 2,
                   meas_date = None\<rparr>,
      raw_data = [[1, 2, 3, 4, 5, 6], [6, 5, 4, 3, 2, 1]]\<rparr>"

definition example_mne :: "nat mne" where
  "example_mne =
     \<lparr>os_name = Posix,
      read_raw_edf = (\<lambda>p f. case f p of Some (FifRaw x) \<Rightarrow> Inr x | _ \<Rightarrow> Inl OSError),
      read_raw_fif = (\<lambda>p f. case f p of Some (FifRaw x) \<Rightarrow> Inr x | _ \<Rightarrow> Inl OSError),
      fir_filter = (\<lambda>l h x. Inr (map (map (\<lambda>v. 2 * v)) (raw_data x))),
      ica_fit = (\<lambda>ica seed x. Inr seed),
      find_bads_eog = (\<lambda>ica x. Inl RuntimeError),
      ica_apply = (\<lambda>ica x. Inr (raw_data x)),
      make_fixed_length_events = (\<lambda>x d. Inr [0, 2, 4]),
      write_error = (\<lambda>p f. None)\<rparr>"

definition example_world :: world where
  "example_world =
     \<lparr>store = (\<lambda>r. eeg_rec), next_ref = 0,
      fs = [''eog.fif'' \<mapsto> FifRaw eog_rec, ''eeg.EDF'' \<mapsto> FifRaw eeg_rec],
      calls = [], rng = 0\<rparr>"

text \<open>The example run: the recording with the EOG channel, default parameters, no epoching.\<close>

definition example_run :: "(exn + nat \<times> series \<times> nat ica_t \<times> nat list) \<times> world" where
  "example_run =
     preprocess_eeg example_mne ''eog.fif'' ''out.fif'' ''out.csv'' 1 40 15 False 2 example_world"

text \<open>The same run on the recording without an EOG channel, and the decomposition both return.\<close>

definition example_run_eeg :: "(exn + nat \<times> series \<times> nat ica_t \<times> nat list) \<times> world" where
  "example_run_eeg =
     preprocess_eeg example_mne ''eeg.EDF'' ''out.fif'' ''out.csv'' 1 40 15 False 2 example_world"

definition example_ica :: "nat ica_t" where
  "example_ica =
     \<lparr>n_components = 2, random_state = Some 97, max_iter = ''auto'', fitted = Some 97,
      exclude = []\<rparr>"

subsection \<open>Two runs side by side\<close>

text \<open>
  Two statements correspond when both raise the same exception, or both return and the
  values and worlds they leave are related by \<open>R\<close>.
\<close>

definition rel_res ::
  "('a \<Rightarrow> world \<Rightarrow> 'b \<Rightarrow> world \<Rightarrow> bool) \<Rightarrow> (exn + 'a) \<times> world \<Rightarrow> (exn + 'b) \<times> world \<Rightarrow> bool" where
  "rel_res R m1 m2 =
     (case m1 of
        (Inl e1, w1) \<Rightarrow> (case m2 of (Inl e2, w2) \<Rightarrow> e1 = e2 \<and> fs w1 = fs w2 | (Inr x2, w2) \<Rightarrow> False)
      | (Inr x1, w1) \<Rightarrow> (case m2 of (Inl e2, w2) \<Rightarrow> False | (Inr x2, w2) \<Rightarrow> R x1 w1 x2 w2))"

text \<open>
  Two worlds look alike from a pair of references: the file systems are equal, both
  references are allocated, and they hold equal recordings.
\<close>

definition alike :: "nat \<Rightarrow> world \<Rightarrow> nat \<Rightarrow> world \<Rightarrow> bool" where
  "alike r1 w1 r2 w2 =
     (fs w1 = fs w2 \<and> r1 < next_ref w1 \<and> r2 < next_ref w2 \<and> store w1 r1 = store w2 r2)"

text \<open>
  The same for the cleaned series next to the filtered recording: both runs hold a
  continuous copy, distinct from the filtered object and alike, or equal windowed values.
\<close>

definition alike_series :: "nat \<Rightarrow> series \<Rightarrow> world \<Rightarrow> nat \<Rightarrow> series \<Rightarrow> world \<Rightarrow> bool" where
  "alike_series r1 s1 w1 r2 s2 w2 =
     (alike r1 w1 r2 w2 \<and>
      (case s1 of
         Continuous c1 \<Rightarrow>
           (case s2 of Continuous c2 \<Rightarrow> alike c1 w1 c2 w2 \<and> c1 \<noteq> r1 \<and> c2 \<noteq> r2 | Epoched e2 \<Rightarrow> False)
       | Epoched e1 \<Rightarrow> (case s2 of Continuous c2 \<Rightarrow> False | Epoched e2 \<Rightarrow> e1 = e2)))"

section \<open>Basic facts\<close>

lemma seq_Inl [simp]: "seq (Inl e, w) f = (Inl e, w)"
  by (simp add: seq_def)

lemma seq_Inr [simp]: "seq (Inr x, w) f = f x w"
  by (simp add: seq_def)

lemmas run_defs = preprocess_eeg_def load_raw_def read_raw_def raw_filter_def fit_ica_def
  ica_fit_raw_def ICA_def find_eog_artifacts_def apply_to_copy_def make_epochs_def
  save_cleaned_def write_file_def seq_def log_call_def new_object_def set_meas_date_def

subsection \<open>Lower-casing and the extension\<close>

lemma of_char_lower_char:
  "(of_char (lower_char x) :: nat) =
     (if 65 \<le> (of_char x :: nat) \<and> (of_char x :: nat) \<le> 90 then of_char x + 32 else of_char x)"
  by (simp add: lower_char_def Let_def)

lemma lower_char_eq_iff: "caseless c \<Longrightarrow> (lower_char x = c) = (x = c)"
proof -
  assume c: "caseless c"
  have "(lower_char x = c) = ((of_char (lower_char x) :: nat) = of_char c)"
    by simp
  also have "\<dots> = ((of_char x :: nat) = of_char c)"
    using c unfolding of_char_lower_char caseless_def Let_def by auto
  also have "\<dots> = (x = c)"
    by simp
  finally show ?thesis .
qed

lemma rfind_from_lower:
  "caseless c \<Longrightarrow> rfind_from c (map lower_char p) i found = rfind_from c p i found"
  by (induction p arbitrary: i found) (simp_all add: lower_char_eq_iff)

lemma rfind_lower: "caseless c \<Longrightarrow> rfind (map lower_char p) c = rfind p c"
  by (simp add: rfind_def rfind_from_lower)

lemma map_lower_single: "caseless c \<Longrightarrow> (map lower_char ys = [c]) = (ys = [c])"
  by (cases ys) (auto simp: lower_char_eq_iff)

lemma splitext_loop_lower:
  "caseless e \<Longrightarrow> splitext_loop (map lower_char p) e fi di = splitext_loop p e fi di"
proof (induction p e fi di rule: splitext_loop.induct)
  case (1 p extsep filenameIndex dotIndex)
  have eq: "(take 1 (drop filenameIndex (map lower_char p)) \<noteq> [extsep])
             = (take 1 (drop filenameIndex p) \<noteq> [extsep])"
    using "1.prems" by (simp add: drop_map take_map map_lower_single)
  show ?case
    using 1 eq
    by (subst splitext_loop.simps, subst (2) splitext_loop.simps) auto
qed

lemma splitext_generic_lower:
  assumes "caseless sep" "case altsep of None \<Rightarrow> True | Some a \<Rightarrow> caseless a" "caseless e"
  shows "splitext_generic (lower p) sep altsep e =
           (lower (fst (splitext_generic p sep altsep e)), lower (snd (splitext_generic p sep altsep e)))"
  using assms
  by (auto simp: splitext_generic_def Let_def rfind_lower splitext_loop_lower lower_def
        take_map drop_map split: option.splits)

lemma caseless_seps: "caseless (CHR ''.'')" "caseless (os_sep os)"
  "case os_altsep os of None \<Rightarrow> True | Some a \<Rightarrow> caseless a"
  by (cases os; simp add: caseless_def)+

lemma splitext_lower: "snd (splitext os (lower p)) = lower (snd (splitext os p))"
  by (simp add: splitext_def splitext_generic_lower caseless_seps)

lemma read_raw_world: "snd (read_raw reader ev path w) \<noteq> w"
proof -
  have "calls (snd (read_raw reader ev path w)) = calls w @ [ev]"
    by (simp add: read_raw_def log_call_def new_object_def split: sum.splits)
  then show ?thesis by auto
qed

lemma rejected_iff:
  "rejected L p w =
     (lower (snd (splitext (os_name L) p)) \<noteq> ''.edf'' \<and> lower (snd (splitext (os_name L) p)) \<noteq> ''.fif'')"
  using read_raw_world[of "read_raw_edf L" "ReadRawEdf p" p w]
        read_raw_world[of "read_raw_fif L" "ReadRawFif p" p w]
  by (auto simp: rejected_def load_raw_def Let_def prod_eq_iff)

lemma os_name_example: "os_name example_mne = Posix"
  by (simp add: example_mne_def)

section \<open>The extension test at the entry point\<close>

text \<open>
  Claim C1.  When the lower-cased extension of the input path is neither \<open>.edf\<close> nor
  \<open>.fif\<close>, \<open>preprocess_eeg\<close> raises the unsupported-format error (the source's
  \<^verbatim>\<open>ValueError('Unsupported file format')\<close>) and the world is exactly the one the run
  started in: no reader, filter, fit or reconstruction was called (the log is unchanged),
  no object was created and no file was written.
\<close>

theorem unsupported_extension_raises_first:
  assumes "lower (snd (splitext (os_name L) input_path)) \<noteq> ''.edf''"
      and "lower (snd (splitext (os_name L) input_path)) \<noteq> ''.fif''"
  shows "preprocess_eeg L input_path fif_out_path csv_out_path l_freq h_freq n_comp epoch
           epoch_length w = (Inl (ValueError ''Unsupported file format''), w)"
  using assms by (simp add: preprocess_eeg_def load_raw_def)

theorem unsupported_extension_raises_first_witness:
  "lower (snd (splitext (os_name example_mne) ''uploads/notes.txt'')) \<noteq> ''.edf''
   \<and> lower (snd (splitext (os_name example_mne) ''uploads/notes.txt'')) \<noteq> ''.fif''
   \<and> preprocess_eeg example_mne ''uploads/notes.txt'' ''out.fif'' ''out.csv'' 1 40 15 False 2
        example_world = (Inl (ValueError ''Unsupported file format''), example_world)"
proof -
  have e: "lower (snd (splitext Posix ''uploads/notes.txt'')) = ''.txt''"
    by code_simp
  have h1: "lower (snd (splitext (os_name example_mne) ''uploads/notes.txt'')) \<noteq> ''.edf''"
    by (simp add: os_name_example e)
  have h2: "lower (snd (splitext (os_name example_mne) ''uploads/notes.txt'')) \<noteq> ''.fif''"
    by (simp add: os_name_example e)
  show ?thesis
    using h1 h2 unsupported_extension_raises_first [OF h1 h2] by blast
qed

text \<open>
  Claim C10.  Whether the entry point rejects a path depends only on the lower-cased
  extension: two paths with the same lower-cased extension, and in particular two paths
  that differ only in the case of their letters (\<open>.EDF\<close>, \<open>.Edf\<close>, \<open>.FIF\<close> against
  \<open>.edf\<close>, \<open>.fif\<close>), are rejected alike, on either platform.
\<close>

theorem extension_case_insensitive:
  assumes "lower (snd (splitext (os_name L) p)) = lower (snd (splitext (os_name L) q))
           \<or> lower p = lower q"
  shows "rejected L p w = rejected L q w"
proof -
  have "lower (snd (splitext (os_name L) p)) = lower (snd (splitext (os_name L) q))"
    using assms
  proof
    assume "lower p = lower q"
    then have "snd (splitext (os_name L) (lower p)) = snd (splitext (os_name L) (lower q))"
      by simp
    then show ?thesis by (simp add: splitext_lower)
  qed simp
  then show ?thesis by (simp add: rejected_iff)
qed

theorem extension_case_insensitive_witness:
  "lower ''data/Rec.EDF'' = lower ''data/rec.edf''
   \<and> rejected example_mne ''data/Rec.EDF'' example_world
       = rejected example_mne ''data/rec.edf'' example_world
   \<and> \<not> rejected example_mne ''data/rec.edf'' example_world"
proof -
  have h: "lower ''data/Rec.EDF'' = lower ''data/rec.edf''"
    by code_simp
  have e: "lower (snd (splitext Posix ''data/rec.edf'')) = ''.edf''"
    by code_simp
  have a: "\<not> rejected example_mne ''data/rec.edf'' example_world"
    by (simp add: rejected_iff os_name_example e)
  show ?thesis
    using h a extension_case_insensitive [OF disjI2, OF h, of example_mne example_world]
    by blast
qed

section \<open>What a returning run did\<close>

lemma pick_types_eog_none: "EOG \<notin> set (ch_kinds nfo) \<Longrightarrow> pick_types_eog nfo = []"
proof -
  assume a: "EOG \<notin> set (ch_kinds nfo)"
  have "\<And>i. i < length (ch_kinds nfo) \<Longrightarrow> ch_kinds nfo ! i \<noteq> EOG"
    using a nth_mem by metis
  then show ?thesis
    by (auto simp: pick_types_eog_def filter_empty_conv)
qed

text \<open>
  A run that returns went through every stage, and every stage returned.
\<close>

lemma run_stages:
  assumes "preprocess_eeg L input_path fif_out_path csv_out_path l_freq h_freq n_comp epoch
             epoch_length w = (Inr (raw, cleaned, ica, ex), w')"
  shows "\<exists>w1 u w2 ica0 w3 w4 c w5 s w6.
           load_raw L input_path w = (Inr raw, w1)
           \<and> raw_filter L raw l_freq h_freq w1 = (Inr u, w2)
           \<and> fit_ica L n_comp raw w2 = (Inr ica0, w3)
           \<and> find_eog_artifacts L ica0 raw w3 = (Inr ica, w4)
           \<and> apply_to_copy L ica raw w4 = (Inr c, w5)
           \<and> (if epoch then make_epochs L c epoch_length w5 else (Inr (Continuous c), w5))
               = (Inr s, w6)
           \<and> save_cleaned L s fif_out_path csv_out_path w6 = (Inr cleaned, w')
           \<and> ex = exclude ica"
  using assms unfolding preprocess_eeg_def seq_def
  by (cases epoch) (auto split: prod.splits sum.splits)

lemma load_raw_Inr:
  assumes "load_raw L p w = (Inr r, w1)"
  shows "r = next_ref w \<and> next_ref w1 = Suc r
         \<and> (\<exists>ev. calls w1 = calls w @ [ev] \<and> ev \<noteq> FindBadsEog)"
  using assms
  by (auto simp: load_raw_def read_raw_def new_object_def log_call_def Let_def
           split: if_splits sum.splits)

lemma raw_filter_Inr:
  assumes "raw_filter L r l h w1 = (Inr u, w2)"
  shows "\<exists>d. fir_filter L l h (store w1 r) = Inr d
              \<and> store w2 = (store w1)(r := (store w1 r)\<lparr>raw_data := d\<rparr>)
              \<and> next_ref w2 = next_ref w1 \<and> calls w2 = calls w1 @ [Filter l h]"
  using assms
  by (auto simp: raw_filter_def log_call_def split: sum.splits)

lemma fit_ica_Inr:
  assumes "fit_ica L n r w2 = (Inr ica0, w3)"
  shows "store w3 = store w2 \<and> next_ref w3 = next_ref w2
         \<and> calls w3 = calls w2 @ [IcaFit (n_components ica0)]
         \<and> n_components ica0 = min n (int (length (ch_names (raw_info (store w2 r)))))"
  using assms
  by (auto simp: fit_ica_def ica_fit_raw_def ICA_def log_call_def Let_def split: sum.splits)

lemma find_eog_artifacts_Inr:
  assumes "find_eog_artifacts L ica0 r w3 = (Inr ica, w4)"
  shows "store w4 = store w3 \<and> next_ref w4 = next_ref w3
         \<and> n_components ica = n_components ica0
         \<and> (\<exists>cs. calls w4 = calls w3 @ cs
               \<and> (pick_types_eog (raw_info (store w3 r)) = [] \<longrightarrow> cs = [] \<and> exclude ica = []))"
  using assms
  by (auto simp: find_eog_artifacts_def log_call_def Let_def split: sum.splits if_splits)

lemma apply_to_copy_Inr:
  assumes "apply_to_copy L ica r w4 = (Inr c, w5)"
  shows "c = next_ref w4 \<and> (\<forall>k. k \<noteq> c \<longrightarrow> store w5 k = store w4 k)
         \<and> calls w5 = calls w4 @ [IcaApply (exclude ica)]"
  using assms
  by (auto simp: apply_to_copy_def new_object_def log_call_def split: sum.splits)

lemma epoching_Inr:
  assumes "(if ep then make_epochs L c el w5 else (Inr (Continuous c), w5)) = (Inr s, w6)"
  shows "store w6 = store w5 \<and> (s = Continuous c \<or> (\<exists>e. s = Epoched e))
         \<and> (\<exists>cs. calls w6 = calls w5 @ cs \<and> FindBadsEog \<notin> set cs)"
  using assms
  by (auto simp: make_epochs_def log_call_def split: sum.splits if_splits)

lemma write_file_Inr:
  assumes "write_file L ev p x w = (Inr u, w1)"
  shows "store w1 = store w \<and> calls w1 = calls w @ [ev]"
  using assms
  by (auto simp: write_file_def log_call_def split: option.splits)

lemma save_cleaned_Inr:
  assumes "save_cleaned L s f c w6 = (Inr cleaned, w')"
  shows "(\<forall>k. s \<noteq> Continuous k \<longrightarrow> store w' k = store w6 k)
         \<and> (cleaned = s \<or> (\<exists>e. cleaned = Epoched e))
         \<and> (\<exists>cs. calls w' = calls w6 @ cs \<and> FindBadsEog \<notin> set cs)"
proof (cases s)
  case (Continuous k)
  let ?w = "w6\<lparr>store := (store w6)
               (k := (store w6 k)\<lparr>raw_info := set_meas_date (raw_info (store w6 k)) None\<rparr>)\<rparr>"
  obtain u1 v1 where a: "write_file L (Save f) f (FifRaw (store ?w k)) ?w = (Inr u1, v1)"
    and b: "\<exists>u2. write_file L (Savetxt c) c (Csv (raw_data (store v1 k))) v1 = (Inr u2, w')"
    and cl: "cleaned = Continuous k"
    using assms Continuous
    by (auto simp: save_cleaned_def seq_def Let_def split: prod.splits sum.splits)
  from b obtain u2 where b': "write_file L (Savetxt c) c (Csv (raw_data (store v1 k))) v1 = (Inr u2, w')"
    by blast
  show ?thesis
    using Continuous cl write_file_Inr [OF a] write_file_Inr [OF b']
    by auto
next
  case (Epoched e)
  let ?e = "e\<lparr>ep_info := set_meas_date (ep_info e) None\<rparr>"
  obtain u1 v1 where a: "write_file L (Save f) f (FifEpochs ?e) w6 = (Inr u1, v1)"
    and b: "\<exists>u2. write_file L (Savetxt c) c (Csv (mean_axis0 ?e)) v1 = (Inr u2, w')"
    and cl: "cleaned = Epoched ?e"
    using assms Epoched
    by (auto simp: save_cleaned_def seq_def Let_def split: prod.splits sum.splits)
  from b obtain u2 where b': "write_file L (Savetxt c) c (Csv (mean_axis0 ?e)) v1 = (Inr u2, w')"
    by blast
  show ?thesis
    using Epoched cl write_file_Inr [OF a] write_file_Inr [OF b']
    by auto
qed

text \<open>
  Put together: the facts about a returning run that the statements below need.
\<close>

lemma run_returns:
  assumes "preprocess_eeg L input_path fif_out_path csv_out_path l_freq h_freq n_comp epoch
             epoch_length w = (Inr (raw, cleaned, ica, ex), w')"
  shows "\<exists>w1 d. load_raw L input_path w = (Inr raw, w1)
           \<and> fir_filter L l_freq h_freq (store w1 raw) = Inr d
           \<and> store w' raw = (store w1 raw)\<lparr>raw_data := d\<rparr>
           \<and> cleaned \<noteq> Continuous raw
           \<and> n_components ica = min n_comp (int (length (ch_names (raw_info (store w1 raw)))))
           \<and> ex = exclude ica
           \<and> IcaFit (n_components ica) \<in> set (new_calls w w')
           \<and> (pick_types_eog (raw_info (store w1 raw)) = []
                \<longrightarrow> exclude ica = [] \<and> FindBadsEog \<notin> set (new_calls w w'))"
proof -
  obtain w1 u w2 ica0 w3 w4 c w5 s w6 where
    s1: "load_raw L input_path w = (Inr raw, w1)"
    and s2: "raw_filter L raw l_freq h_freq w1 = (Inr u, w2)"
    and s3: "fit_ica L n_comp raw w2 = (Inr ica0, w3)"
    and s4: "find_eog_artifacts L ica0 raw w3 = (Inr ica, w4)"
    and s5: "apply_to_copy L ica raw w4 = (Inr c, w5)"
    and s6: "(if epoch then make_epochs L c epoch_length w5 else (Inr (Continuous c), w5))
               = (Inr s, w6)"
    and s7: "save_cleaned L s fif_out_path csv_out_path w6 = (Inr cleaned, w')"
    and ex: "ex = exclude ica"
    using run_stages [OF assms] by blast
  note f1 = load_raw_Inr [OF s1] and f3 = fit_ica_Inr [OF s3]
    and f4 = find_eog_artifacts_Inr [OF s4] and f5 = apply_to_copy_Inr [OF s5]
    and f6 = epoching_Inr [OF s6] and f7 = save_cleaned_Inr [OF s7]
  obtain d where d: "fir_filter L l_freq h_freq (store w1 raw) = Inr d"
    and st2: "store w2 = (store w1)(raw := (store w1 raw)\<lparr>raw_data := d\<rparr>)"
    and n2: "next_ref w2 = next_ref w1" and c2: "calls w2 = calls w1 @ [Filter l_freq h_freq]"
    using raw_filter_Inr [OF s2] by blast
  obtain ev where c1: "calls w1 = calls w @ [ev]" and ev: "ev \<noteq> FindBadsEog"
    using f1 by blast
  obtain cs4 where c4: "calls w4 = calls w3 @ cs4"
    and q4: "pick_types_eog (raw_info (store w3 raw)) = [] \<longrightarrow> cs4 = [] \<and> exclude ica = []"
    using f4 by blast
  obtain cs6 where c6: "calls w6 = calls w5 @ cs6" and q6: "FindBadsEog \<notin> set cs6"
    using f6 by blast
  obtain cs7 where c7: "calls w' = calls w6 @ cs7" and q7: "FindBadsEog \<notin> set cs7"
    using f7 by blast
  have cne: "c \<noteq> raw"
    using f1 f3 f4 f5 n2 by simp
  have sne: "s \<noteq> Continuous raw"
    using f6 cne by auto
  have cl: "cleaned \<noteq> Continuous raw"
    using f7 sne by auto
  have st: "store w' raw = (store w1 raw)\<lparr>raw_data := d\<rparr>"
    using f7 sne f6 f5 cne f4 f3 st2 by simp
  have info: "raw_info (store w3 raw) = raw_info (store w1 raw)"
    using f3 st2 by simp
  have info2: "raw_info (store w2 raw) = raw_info (store w1 raw)"
    using st2 by simp
  have n: "n_components ica = min n_comp (int (length (ch_names (raw_info (store w1 raw)))))"
    using f3 f4 info2 by simp
  have calls: "new_calls w w' =
                 [ev, Filter l_freq h_freq, IcaFit (n_components ica0)] @ cs4
                   @ [IcaApply (exclude ica)] @ cs6 @ cs7"
    using c1 c2 f3 c4 f5 c6 c7 by (simp add: new_calls_def)
  have fit: "IcaFit (n_components ica) \<in> set (new_calls w w')"
    using calls f4 by simp
  have quiet: "pick_types_eog (raw_info (store w1 raw)) = []
                 \<longrightarrow> exclude ica = [] \<and> FindBadsEog \<notin> set (new_calls w w')"
    using calls q4 q6 q7 ev info by auto
  show ?thesis
    using s1 d st cl n ex fit quiet by blast
qed

section \<open>The decomposition and the detection of artifacts\<close>


text \<open>
  Claim C3.  In a run that returns a recording without any EOG channel, the returned
  exclude set (and the \<open>exclude\<close> attribute of the returned decomposition) is empty, and
  the run made no call to the EOG scoring.
\<close>

theorem no_eog_channel_no_scoring:
  assumes run: "preprocess_eeg L input_path fif_out_path csv_out_path l_freq h_freq n_comp epoch
             epoch_length w = (Inr (raw, cleaned, ica, ex), w')"
      and no_eog: "EOG \<notin> set (ch_kinds (raw_info (store w' raw)))"
  shows "ex = [] \<and> exclude ica = [] \<and> FindBadsEog \<notin> set (new_calls w w')"
proof -
  obtain w1 :: world and d where
    st: "store w' raw = (store w1 raw)\<lparr>raw_data := d\<rparr>"
    and ex: "ex = exclude ica"
    and q: "pick_types_eog (raw_info (store w1 raw)) = []
              \<longrightarrow> exclude ica = [] \<and> FindBadsEog \<notin> set (new_calls w w')"
    using run_returns [OF run] by blast
  have "raw_info (store w' raw) = raw_info (store w1 raw)"
    by (simp add: st)
  then have "pick_types_eog (raw_info (store w1 raw)) = []"
    using no_eog by (simp add: pick_types_eog_none)
  then show ?thesis
    using ex q by simp
qed


section \<open>Filtering works on the loaded object\<close>

text \<open>
  Claim C5, as amended.  The filter rewrites the loaded recording in place.  After a run
  that returns, the first element of the tuple is the reference the reader's object was
  stored under, and that object holds the filter's output on the loaded data, with its
  channel information unchanged.  The cleaned series is another object: reconstruction
  and export worked on a copy and did not touch the first element.
\<close>

theorem returned_raw_is_filtered:
  assumes "preprocess_eeg L input_path fif_out_path csv_out_path l_freq h_freq n_comp epoch
             epoch_length w = (Inr (raw, cleaned, ica, ex), w')"
  shows "\<exists>w1 d. load_raw L input_path w = (Inr raw, w1)
           \<and> fir_filter L l_freq h_freq (store w1 raw) = Inr d
           \<and> raw_data (store w' raw) = d
           \<and> raw_info (store w' raw) = raw_info (store w1 raw)
           \<and> cleaned \<noteq> Continuous raw"
proof -
  obtain w1 d where
    "load_raw L input_path w = (Inr raw, w1)"
    "fir_filter L l_freq h_freq (store w1 raw) = Inr d"
    "store w' raw = (store w1 raw)\<lparr>raw_data := d\<rparr>"
    "cleaned \<noteq> Continuous raw"
    using run_returns [OF assms] by blast
  then show ?thesis
    by (intro exI [of _ w1] exI [of _ d]) simp
qed

section \<open>Determinism\<close>

lemma rel_res_seq:
  assumes "rel_res R m1 m2"
      and "\<And>x1 w1 x2 w2. R x1 w1 x2 w2 \<Longrightarrow> rel_res Q (f1 x1 w1) (f2 x2 w2)"
  shows "rel_res Q (seq m1 f1) (seq m2 f2)"
  using assms
  by (cases m1; cases m2; cases "fst m1"; cases "fst m2") (auto simp: rel_res_def seq_def)

lemma rel_load:
  assumes "fs w1 = fs w2"
  shows "rel_res alike (load_raw L p w1) (load_raw L p w2)"
  using assms
  by (auto simp: rel_res_def alike_def load_raw_def read_raw_def new_object_def log_call_def
        Let_def split: sum.splits)

lemma rel_filter:
  assumes "alike r1 w1 r2 w2"
  shows "rel_res (\<lambda>u w1' v w2'. alike r1 w1' r2 w2')
           (raw_filter L r1 l h w1) (raw_filter L r2 l h w2)"
  using assms
  by (auto simp: rel_res_def alike_def raw_filter_def log_call_def split: sum.splits)

lemma rel_fit:
  assumes "alike r1 w1 r2 w2"
  shows "rel_res (\<lambda>i1 w1' i2 w2'. i1 = i2 \<and> alike r1 w1' r2 w2')
           (fit_ica L n r1 w1) (fit_ica L n r2 w2)"
  using assms
  by (auto simp: rel_res_def alike_def fit_ica_def ica_fit_raw_def ICA_def log_call_def Let_def
        split: sum.splits)

lemma rel_find:
  assumes "alike r1 w1 r2 w2"
  shows "rel_res (\<lambda>i1 w1' i2 w2'. i1 = i2 \<and> alike r1 w1' r2 w2')
           (find_eog_artifacts L ica r1 w1) (find_eog_artifacts L ica r2 w2)"
  using assms
  by (auto simp: rel_res_def alike_def find_eog_artifacts_def log_call_def Let_def
        split: sum.splits)

lemma rel_apply:
  assumes "alike r1 w1 r2 w2"
  shows "rel_res (\<lambda>c1 w1' c2 w2'. c1 \<noteq> r1 \<and> c2 \<noteq> r2 \<and> alike r1 w1' r2 w2' \<and> alike c1 w1' c2 w2')
           (apply_to_copy L ica r1 w1) (apply_to_copy L ica r2 w2)"
  using assms
  by (auto simp: rel_res_def alike_def apply_to_copy_def new_object_def log_call_def
        split: sum.splits)

lemma rel_epochs:
  assumes "c1 \<noteq> r1" "c2 \<noteq> r2" "alike r1 w1 r2 w2" "alike c1 w1 c2 w2"
  shows "rel_res (\<lambda>s1 w1' s2 w2'. alike_series r1 s1 w1' r2 s2 w2')
           (if ep then make_epochs L c1 el w1 else (Inr (Continuous c1), w1))
           (if ep then make_epochs L c2 el w2 else (Inr (Continuous c2), w2))"
  using assms
  by (auto simp: rel_res_def alike_def alike_series_def make_epochs_def log_call_def
        split: sum.splits)

lemma rel_save:
  assumes "alike_series r1 s1 w1 r2 s2 w2"
  shows "rel_res (\<lambda>s1' w1' s2' w2'. alike_series r1 s1' w1' r2 s2' w2')
           (save_cleaned L s1 f c w1) (save_cleaned L s2 f c w2)"
proof (cases s1)
  case (Continuous c1)
  then obtain c2 where s2: "s2 = Continuous c2"
    and ne: "c1 \<noteq> r1" "c2 \<noteq> r2" "r1 \<noteq> c1" "r2 \<noteq> c2"
    and ar: "alike r1 w1 r2 w2" and ac: "alike c1 w1 c2 w2"
    using assms by (cases s2) (auto simp: alike_series_def)
  have fsq: "fs w1 = fs w2" and st: "store w1 c1 = store w2 c2"
    using ac by (simp_all add: alike_def)
  let ?obj = "(store w2 c2)\<lparr>raw_info := set_meas_date (raw_info (store w2 c2)) None\<rparr>"
  show ?thesis
  proof (cases "write_error L f (fs w2)")
    case (Some e)
    then show ?thesis
      using Continuous s2 fsq st
      by (simp add: save_cleaned_def write_file_def log_call_def rel_res_def Let_def)
  next
    case None
    note n1 = None
    show ?thesis
    proof (cases "write_error L c ((fs w2)(f \<mapsto> FifRaw ?obj))")
      case (Some e)
      then show ?thesis
        using Continuous s2 fsq st n1
        by (simp add: save_cleaned_def write_file_def log_call_def rel_res_def Let_def)
    next
      case None
      then show ?thesis
        using Continuous s2 fsq st n1 ne ar ac
        by (simp add: save_cleaned_def write_file_def log_call_def rel_res_def Let_def
              alike_series_def alike_def)
    qed
  qed
next
  case (Epoched e1)
  then have s2: "s2 = Epoched e1" and ar: "alike r1 w1 r2 w2"
    using assms by (cases s2; simp add: alike_series_def)+
  have fsq: "fs w1 = fs w2"
    using ar by (simp add: alike_def)
  let ?ep = "e1\<lparr>ep_info := set_meas_date (ep_info e1) None\<rparr>"
  show ?thesis
  proof (cases "write_error L f (fs w2)")
    case (Some e)
    then show ?thesis
      using Epoched s2 fsq
      by (simp add: save_cleaned_def write_file_def log_call_def rel_res_def Let_def)
  next
    case None
    note n1 = None
    show ?thesis
    proof (cases "write_error L c ((fs w2)(f \<mapsto> FifEpochs ?ep))")
      case (Some e)
      then show ?thesis
        using Epoched s2 fsq n1
        by (simp add: save_cleaned_def write_file_def log_call_def rel_res_def Let_def)
    next
      case None
      then show ?thesis
        using Epoched s2 fsq n1 ar
        by (simp add: save_cleaned_def write_file_def log_call_def rel_res_def Let_def
              alike_series_def alike_def)
    qed
  qed
qed

lemma rel_run:
  assumes "fs w1 = fs w2"
  shows "rel_res (\<lambda>t1 w1' t2 w2'.
            (case t1 of (r1, s1, i1, e1) \<Rightarrow>
               (case t2 of (r2, s2, i2, e2) \<Rightarrow>
                  i1 = i2 \<and> e1 = e2 \<and> alike_series r1 s1 w1' r2 s2 w2')))
           (preprocess_eeg L p f c l h n ep el w1) (preprocess_eeg L p f c l h n ep el w2)"
  unfolding preprocess_eeg_def
  apply (rule rel_res_seq [OF rel_load [OF assms]])
  apply (rule rel_res_seq [OF rel_filter], assumption)
  apply (rule rel_res_seq [OF rel_fit], assumption)
  apply (erule conjE, hypsubst)
  apply (rule rel_res_seq [OF rel_find], assumption)
  apply (erule conjE, hypsubst)
  apply (rule rel_res_seq [OF rel_apply], assumption)
  apply (elim conjE)
  apply (rule rel_res_seq [OF rel_epochs], assumption+)
  apply (rule rel_res_seq [OF rel_save], assumption)
  apply (simp add: rel_res_def)
  done

text \<open>
  Claim C9.  A run's observable result is a function of the library, the arguments and
  the file system alone.  Two runs that start with equal file systems, whatever the state
  of the process-wide random generator, the objects already in the store, the addresses
  handed out and the calls made before, end alike: they raise the same exception, or they
  return equal filtered recordings, equal cleaned series, equal decompositions (the seed
  is the constant 97, never the generator's state) and equal exclude sets; and they leave
  equal file systems.
\<close>

theorem run_is_deterministic:
  assumes "fs w1 = fs w2"
  shows "outcome (preprocess_eeg L input_path fif_out_path csv_out_path l_freq h_freq n_comp
                    epoch epoch_length w1)
         = outcome (preprocess_eeg L input_path fif_out_path csv_out_path l_freq h_freq n_comp
                      epoch epoch_length w2)
         \<and> fs (snd (preprocess_eeg L input_path fif_out_path csv_out_path l_freq h_freq n_comp
                    epoch epoch_length w1))
           = fs (snd (preprocess_eeg L input_path fif_out_path csv_out_path l_freq h_freq n_comp
                      epoch epoch_length w2))"
proof -
  let ?m1 = "preprocess_eeg L input_path fif_out_path csv_out_path l_freq h_freq n_comp
               epoch epoch_length w1"
  let ?m2 = "preprocess_eeg L input_path fif_out_path csv_out_path l_freq h_freq n_comp
               epoch epoch_length w2"
  have R: "rel_res (\<lambda>t1 w1' t2 w2'.
            (case t1 of (r1, s1, i1, e1) \<Rightarrow>
               (case t2 of (r2, s2, i2, e2) \<Rightarrow>
                  i1 = i2 \<and> e1 = e2 \<and> alike_series r1 s1 w1' r2 s2 w2'))) ?m1 ?m2"
    by (rule rel_run [OF assms])
  obtain a1 v1 where m1: "?m1 = (a1, v1)" by (cases ?m1)
  obtain a2 v2 where m2: "?m2 = (a2, v2)" by (cases ?m2)
  show ?thesis
  proof (cases a1)
    case (Inl e1)
    with R m1 m2 show ?thesis
      by (cases a2) (simp_all add: rel_res_def outcome_def)
  next
    case (Inr t1)
    with R m1 m2 obtain t2 where a2: "a2 = Inr t2"
      by (cases a2) (simp_all add: rel_res_def)
    obtain r1 s1 i1 e1 where t1: "t1 = (r1, s1, i1, e1)" by (cases t1)
    obtain r2 s2 i2 e2 where t2: "t2 = (r2, s2, i2, e2)" by (cases t2)
    have rel: "i1 = i2" "e1 = e2" "alike_series r1 s1 v1 r2 s2 v2"
      using R m1 m2 Inr a2 t1 t2 by (simp_all add: rel_res_def)
    show ?thesis
      using rel m1 m2 Inr a2 t1 t2
      by (cases s1; cases s2) (simp_all add: outcome_def alike_series_def alike_def)
  qed
qed

section \<open>The example runs\<close>

lemma ext_eog: "lower (snd (splitext Posix ''eog.fif'')) = ''.fif''"
  by code_simp

lemma ext_eeg: "lower (snd (splitext Posix ''eeg.EDF'')) = ''.edf''"
  by code_simp

lemma pick_eog_rec:
  "pick_types_eog \<lparr>ch_names = [''Fz'', ''EOG1''], ch_kinds = [EEG, EOG], bads = [], sfreq = 2,
                   meas_date = Some ''2020-01-01''\<rparr> = [1]"
  by (simp add: pick_types_eog_def upt_rec)

lemma pick_eeg_rec:
  "pick_types_eog \<lparr>ch_names = [''Fz'', ''Cz''], ch_kinds = [EEG, EEG], bads = [], sfreq = 2,
                   meas_date = None\<rparr> = []"
  by (simp add: pick_types_eog_def upt_rec)

lemmas example_defs = example_mne_def example_world_def eog_rec_def eeg_rec_def example_ica_def

lemma example_run_fst: "fst example_run = Inr (0, Continuous 1, example_ica, [])"
  by (simp add: example_run_def run_defs Let_def ext_eog pick_eog_rec example_defs)

lemma example_run_eeg_fst: "fst example_run_eeg = Inr (0, Continuous 1, example_ica, [])"
  by (simp add: example_run_eeg_def run_defs Let_def ext_eeg pick_eeg_rec example_defs)

lemma example_run_raw:
  "store (snd example_run) 0 = eog_rec\<lparr>raw_data := [[2, 4, 6, 8, 10, 12], [0, 2, 0, 2, 0, 2]]\<rparr>"
  by (simp add: example_run_def run_defs Let_def ext_eog pick_eog_rec example_defs)

lemma example_run_cleaned:
  "store (snd example_run) (Suc 0) =
     \<lparr>raw_info = (raw_info eog_rec)\<lparr>meas_date := None\<rparr>,
      raw_data = [[2, 4, 6, 8, 10, 12], [0, 2, 0, 2, 0, 2]]\<rparr>"
  by (simp add: example_run_def run_defs Let_def ext_eog pick_eog_rec example_defs)

lemma example_run_eeg_raw:
  "store (snd example_run_eeg) 0 = eeg_rec\<lparr>raw_data := [[2, 4, 6, 8, 10, 12], [12, 10, 8, 6, 4, 2]]\<rparr>"
  by (simp add: example_run_eeg_def run_defs Let_def ext_eeg pick_eeg_rec example_defs)

lemma example_run_eq:
  "preprocess_eeg example_mne ''eog.fif'' ''out.fif'' ''out.csv'' 1 40 15 False 2 example_world
     = (Inr (0, Continuous 1, example_ica, []), snd example_run)"
  unfolding example_run_def [symmetric]
  by (simp add: prod_eq_iff example_run_fst)

lemma example_run_eeg_eq:
  "preprocess_eeg example_mne ''eeg.EDF'' ''out.fif'' ''out.csv'' 1 40 15 False 2 example_world
     = (Inr (0, Continuous 1, example_ica, []), snd example_run_eeg)"
  unfolding example_run_eeg_def [symmetric]
  by (simp add: prod_eq_iff example_run_eeg_fst)


text \<open>The run on the recording without an EOG channel excludes nothing and never scores.\<close>

theorem no_eog_channel_no_scoring_witness:
  "fst example_run_eeg = Inr (0, Continuous 1, example_ica, [])
   \<and> EOG \<notin> set (ch_kinds (raw_info (store (snd example_run_eeg) 0)))
   \<and> exclude example_ica = []
   \<and> FindBadsEog \<notin> set (new_calls example_world (snd example_run_eeg))"
proof -
  have h: "EOG \<notin> set (ch_kinds (raw_info (store (snd example_run_eeg) 0)))"
    by (simp add: example_run_eeg_raw eeg_rec_def)
  show ?thesis
    using example_run_eeg_fst h no_eog_channel_no_scoring [OF example_run_eeg_eq h]
    by blast
qed



text \<open>The first element the example run returns refers to the filtered object.\<close>

theorem returned_raw_is_filtered_witness:
  "fst example_run = Inr (0, Continuous 1, example_ica, [])
   \<and> (\<exists>w1 d. load_raw example_mne ''eog.fif'' example_world = (Inr 0, w1)
           \<and> fir_filter example_mne 1 40 (store w1 0) = Inr d
           \<and> raw_data (store (snd example_run) 0) = d
           \<and> raw_info (store (snd example_run) 0) = raw_info (store w1 0)
           \<and> Continuous 1 \<noteq> Continuous 0)"
  using example_run_fst returned_raw_is_filtered [OF example_run_eq]
  by (rule conjI)

text \<open>
  Claim C5 as stated fails on the example run.  The reader returns the recording
  \<open>eog_rec\<close> with first channel \<open>1, 2, 3, 4, 5, 6\<close>; the example filter doubles every
  sample; the first element of the returned tuple holds \<open>2, 4, 6, 8, 10, 12\<close>, the filtered
  signal, not the signal that was read.
\<close>

theorem filter_in_place_counterexample:
  "read_raw_fif example_mne ''eog.fif'' (fs example_world) = Inr eog_rec
   \<and> raw_data eog_rec = [[1, 2, 3, 4, 5, 6], [0, 1, 0, 1, 0, 1]]
   \<and> outcome example_run =
       Inr (eog_rec\<lparr>raw_data := [[2, 4, 6, 8, 10, 12], [0, 2, 0, 2, 0, 2]]\<rparr>,
            Inl \<lparr>raw_info = (raw_info eog_rec)\<lparr>meas_date := None\<rparr>,
                 raw_data = [[2, 4, 6, 8, 10, 12], [0, 2, 0, 2, 0, 2]]\<rparr>,
            example_ica, [])
   \<and> raw_data (eog_rec\<lparr>raw_data := [[2, 4, 6, 8, 10, 12], [0, 2, 0, 2, 0, 2]]\<rparr>)
       \<noteq> raw_data eog_rec"
proof -
  have a: "read_raw_fif example_mne ''eog.fif'' (fs example_world) = Inr eog_rec"
    by (simp add: example_mne_def example_world_def)
  have b: "raw_data eog_rec = [[1, 2, 3, 4, 5, 6], [0, 1, 0, 1, 0, 1]]"
    by (simp add: eog_rec_def)
  have v: "example_run = (Inr (0, Continuous 1, example_ica, []), snd example_run)"
    by (simp add: prod_eq_iff example_run_fst)
  have c: "outcome example_run =
       Inr (eog_rec\<lparr>raw_data := [[2, 4, 6, 8, 10, 12], [0, 2, 0, 2, 0, 2]]\<rparr>,
            Inl \<lparr>raw_info = (raw_info eog_rec)\<lparr>meas_date := None\<rparr>,
                 raw_data = [[2, 4, 6, 8, 10, 12], [0, 2, 0, 2, 0, 2]]\<rparr>,
            example_ica, [])"
    by (subst v) (simp add: outcome_def example_run_raw example_run_cleaned)
  have d: "raw_data (eog_rec\<lparr>raw_data := [[2, 4, 6, 8, 10, 12], [0, 2, 0, 2, 0, 2]]\<rparr>)
             \<noteq> raw_data eog_rec"
    by (simp add: eog_rec_def)
  show ?thesis using a b c d by blast
qed

text \<open>
  Two runs with epoching on, from worlds that differ in the generator state, the next
  free reference and the log, end alike.
\<close>

theorem run_is_deterministic_witness:
  "fs example_world = fs (example_world\<lparr>next_ref := 3, calls := [FindBadsEog], rng := 7\<rparr>)
   \<and> (outcome (preprocess_eeg example_mne ''eog.fif'' ''out.fif'' ''out.csv'' 1 40 15 True 1
                 example_world)
      = outcome (preprocess_eeg example_mne ''eog.fif'' ''out.fif'' ''out.csv'' 1 40 15 True 1
                   (example_world\<lparr>next_ref := 3, calls := [FindBadsEog], rng := 7\<rparr>))
      \<and> fs (snd (preprocess_eeg example_mne ''eog.fif'' ''out.fif'' ''out.csv'' 1 40 15 True 1
                 example_world))
        = fs (snd (preprocess_eeg example_mne ''eog.fif'' ''out.fif'' ''out.csv'' 1 40 15 True 1
                   (example_world\<lparr>next_ref := 3, calls := [FindBadsEog], rng := 7\<rparr>))))"
proof -
  have h: "fs example_world
             = fs (example_world\<lparr>next_ref := 3, calls := [FindBadsEog], rng := 7\<rparr>)"
    by simp
  show ?thesis
    using h run_is_deterministic [OF h]
    by (rule conjI)
qed

section \<open>Epoching and the text export\<close>

text \<open>
  With epoching on, the text export is the mean over the windows, one row per channel,
  and every row has as many samples as a window: \<open>round(epoch_length * sfreq) + 1\<close>, both
  ends of the window included.
\<close>

lemma epochs_window_length:
  assumes "Epochs raw events 0 epoch_length = Inr ep"
  shows "ep_n_times ep = nat (py_round (epoch_length * sfreq (raw_info raw)) + 1)
         \<and> length (mean_axis0 ep) = length (ch_names (raw_info raw))
         \<and> (\<forall>row \<in> set (mean_axis0 ep).
              length row = nat (py_round (epoch_length * sfreq (raw_info raw)) + 1))"
  using assms
  by (auto simp: Epochs_def Let_def mean_axis0_def py_round_def split: if_splits)

text \<open>
  Claim C7, on the example: a recording of two channels at 2 Hz and six samples, windows
  of 1 s.  The claim gives the export the shape 2 by 2 (\<open>epoch_length * sfreq = 2\<close>
  samples); the run writes a matrix of 2 by 3.  The windows start at samples 0, 2 and 4
  and span three samples each; the third does not fit in the recording and is dropped,
  so the mean is over the first two.
\<close>

theorem epoch_export_has_extra_sample:
  "sfreq (raw_info eog_rec) = 2
   \<and> length (raw_data eog_rec) = 2
   \<and> py_round (1 * sfreq (raw_info eog_rec)) = 2
   \<and> fs (snd (preprocess_eeg example_mne ''eog.fif'' ''out.fif'' ''out.csv'' 1 40 15 True 1
                example_world)) ''out.csv''
       = Some (Csv [[4, 6, 8], [0, 2, 0]])"
  by (simp add: run_defs Let_def ext_eog pick_eog_rec example_defs
      Epochs_def py_round_def n_samples_def mean_axis0_def upt_rec)

section \<open>The renderer on a recording of fewer than five channels\<close>

lemma plot_traces_short:
  "\<exists>i \<in> set idx. length dat \<le> i \<Longrightarrow> plot_traces raw dat tms idx fig = Inl IndexError"
  by (induction idx arbitrary: fig) auto

lemma plot_raw_signal_few_channels:
  assumes "length (raw_data raw) < 5"
  shows "plot_raw_signal L raw out_html_path duration 5 w = (Inl IndexError, w)"
proof -
  have "length (map (py_take k) (py_take 5 (raw_data raw))) < 5" for k :: int
    using assms by (simp add: py_take_def)
  then have "\<exists>i \<in> set [0 ..< nat 5]. length (map (py_take k) (py_take 5 (raw_data raw))) \<le> i" for k :: int
    by (metis atLeastLessThan_iff le_refl nat_numeral set_upt zero_le)
  then show ?thesis
    by (simp add: plot_raw_signal_def raw_getitem_def plot_traces_short)
qed


text \<open>
  Claim C8, on the example: for a recording of two channels the renderer, called with
  its defaults (10 seconds, 5 channels), raises \<open>IndexError\<close> at the third trace and writes
  no file.  The lemma above gives the same for every recording of fewer than five
  channels.
\<close>

theorem plot_raw_signal_two_channels:
  "length (raw_data eeg_rec) = 2
   \<and> plot_raw_signal example_mne eeg_rec ''raw.html'' 10 5 example_world
       = (Inl IndexError, example_world)"
  by (simp add: plot_raw_signal_def raw_getitem_def py_take_def py_int_def eeg_rec_def upt_rec
       raw_times_def n_samples_def add_trace_def empty_figure_def)


end
